theory Spec2Isabelle
  imports Main
begin

section \<open>Values of the program\<close>

text \<open>
  A Python \<^verbatim>\<open>bytes\<close> object is a list of 8-bit characters. A Python \<^verbatim>\<open>str\<close> is
  represented by its UTF-8 encoding, so that \<^verbatim>\<open>s.encode("utf-8")\<close> is the identity
  and \<^verbatim>\<open>raw.decode("utf-8")\<close> succeeds exactly on well-formed UTF-8.
\<close>

type_synonym bytes = "char list"
type_synonym str = "char list"

text \<open>
  The values \<^verbatim>\<open>json.loads\<close> produces. \<open>JNull\<close> is Python's \<^verbatim>\<open>None\<close>; a dict is an
  association list read with \<open>map_of\<close>. Floats are left out: no operation of the
  program inspects a number.
\<close>

datatype json =
    JNull
  | JBool bool
  | JInt int
  | JStr str
  | JArr "json list"
  | JObj "(str \<times> json) list"

datatype exn =
    MessageError
  | Invalid
  | TypeError
  | KeyError
  | AttributeError
  | ValueError
  | HandlerFailure str

section \<open>Library operations used by the program\<close>

text \<open>\<^verbatim>\<open>bytes.decode("utf-8")\<close> in strict mode: well-formed UTF-8 only.\<close>

definition byte_in :: "char \<Rightarrow> nat \<Rightarrow> nat \<Rightarrow> bool" where
  "byte_in c lo hi = (lo \<le> of_char c \<and> of_char c \<le> hi)"

fun utf8_valid :: "bytes \<Rightarrow> bool" where
  "utf8_valid [] = True"
| "utf8_valid [b] = byte_in b 0 0x7F"
| "utf8_valid [b, c1] =
     (if byte_in b 0 0x7F then utf8_valid [c1]
      else byte_in b 0xC2 0xDF \<and> byte_in c1 0x80 0xBF)"
| "utf8_valid [b, c1, c2] =
     (if byte_in b 0 0x7F then utf8_valid [c1, c2]
      else if byte_in b 0xC2 0xDF then byte_in c1 0x80 0xBF \<and> utf8_valid [c2]
      else byte_in c2 0x80 0xBF \<and>
        (byte_in b 0xE0 0xE0 \<and> byte_in c1 0xA0 0xBF
         \<or> byte_in b 0xE1 0xEC \<and> byte_in c1 0x80 0xBF
         \<or> byte_in b 0xED 0xED \<and> byte_in c1 0x80 0x9F
         \<or> byte_in b 0xEE 0xEF \<and> byte_in c1 0x80 0xBF))"
| "utf8_valid (b # c1 # c2 # c3 # bs) =
     (if byte_in b 0 0x7F then utf8_valid (c1 # c2 # c3 # bs)
      else if byte_in b 0xC2 0xDF then byte_in c1 0x80 0xBF \<and> utf8_valid (c2 # c3 # bs)
      else if byte_in b 0xE0 0xEF then
        byte_in c2 0x80 0xBF \<and>
        (byte_in b 0xE0 0xE0 \<and> byte_in c1 0xA0 0xBF
         \<or> byte_in b 0xE1 0xEC \<and> byte_in c1 0x80 0xBF
         \<or> byte_in b 0xED 0xED \<and> byte_in c1 0x80 0x9F
         \<or> byte_in b 0xEE 0xEF \<and> byte_in c1 0x80 0xBF) \<and> utf8_valid (c3 # bs)
      else
        byte_in c2 0x80 0xBF \<and> byte_in c3 0x80 0xBF \<and>
        (byte_in b 0xF0 0xF0 \<and> byte_in c1 0x90 0xBF
         \<or> byte_in b 0xF1 0xF3 \<and> byte_in c1 0x80 0xBF
         \<or> byte_in b 0xF4 0xF4 \<and> byte_in c1 0x80 0x8F) \<and> utf8_valid bs)"

definition utf8_decode :: "bytes \<Rightarrow> str option" where
  "utf8_decode raw = (if utf8_valid raw then Some raw else None)"

definition utf8_encode :: "str \<Rightarrow> bytes" where
  "utf8_encode s = s"

text \<open>
  \<^verbatim>\<open>bytes.find(b"\x00")\<close>: the index of the first null byte, \<open>-1\<close> when there is
  none.
\<close>

fun find_null :: "bytes \<Rightarrow> int" where
  "find_null [] = -1"
| "find_null (b # bs) =
     (if b = CHR 0x00 then 0
      else (let i = find_null bs in if i = -1 then -1 else i + 1))"

text \<open>\<^verbatim>\<open>d.get(k)\<close> and \<^verbatim>\<open>k in d\<close> on a decoded JSON object.\<close>

definition dict_get :: "(str \<times> json) list \<Rightarrow> str \<Rightarrow> json" where
  "dict_get d k = (case map_of d k of None \<Rightarrow> JNull | Some v \<Rightarrow> v)"

definition dict_has :: "(str \<times> json) list \<Rightarrow> str \<Rightarrow> bool" where
  "dict_has d k = (map_of d k \<noteq> None)"

text \<open>Lists and dicts are unhashable: using one as a dict key raises \<open>TypeError\<close>.\<close>

fun hashable :: "json \<Rightarrow> bool" where
  "hashable (JArr _) = False"
| "hashable (JObj _) = False"
| "hashable _ = True"

text \<open>
  Dictionary keys are compared by Python's equality: \<^verbatim>\<open>True\<close> and \<^verbatim>\<open>1\<close> are the
  same key, and so are \<^verbatim>\<open>False\<close> and \<^verbatim>\<open>0\<close>. \<open>dict_key\<close> gives the
  representative under which a hashable value is stored and looked up.
\<close>

definition dict_key :: "json \<Rightarrow> json" where
  "dict_key k = (case k of JBool b \<Rightarrow> JInt (if b then 1 else 0) | _ \<Rightarrow> k)"

text \<open>
  \<^verbatim>\<open>bytes + str\<close> raises \<open>TypeError\<close> whatever the operands; \<^verbatim>\<open>bytes + bytes\<close>
  concatenates.
\<close>

definition bytes_add_str :: "bytes \<Rightarrow> str \<Rightarrow> exn + bytes" where
  "bytes_add_str b s = Inl TypeError"

definition bytes_add_bytes :: "bytes \<Rightarrow> bytes \<Rightarrow> bytes" where
  "bytes_add_bytes a b = a @ b"

text \<open>
  A formencode validator: \<open>to_python\<close> and \<open>from_python\<close> either return a value
  or raise \<open>Invalid\<close> (the result \<open>None\<close>). \<open>NotEmpty\<close> rejects \<^verbatim>\<open>None\<close>, the empty string, the empty
  list and the empty dict in \<open>to_python\<close>; its \<open>from_python\<close> validates nothing.
\<close>

record validator =
  to_python :: "json \<Rightarrow> json option"
  from_python :: "json \<Rightarrow> json option"

fun is_empty :: "json \<Rightarrow> bool" where
  "is_empty JNull = True"
| "is_empty (JStr s) = (s = [])"
| "is_empty (JArr xs) = (xs = [])"
| "is_empty (JObj kvs) = (kvs = [])"
| "is_empty _ = False"

definition NotEmpty :: validator where
  "NotEmpty =
     \<lparr>to_python = (\<lambda>v. if is_empty v then None else Some v),
      from_python = (\<lambda>v. if is_empty v then Some JNull else Some v)\<rparr>"

section \<open>message.py\<close>

text \<open>
  A \<open>Message\<close> subclass carries its tag \<open>type'\<close> (the source's \<^verbatim>\<open>type_\<close>) and its \<open>schema\<close>; an instance
  carries its class and its \<open>entity\<close>. \<open>MessageMeta.types\<close> maps tags to classes.
\<close>

record message_cls =
  type' :: str
  schema :: validator

record message =
  cls :: message_cls
  entity :: json

definition ErrorMessage :: message_cls where
  "ErrorMessage = \<lparr>type' = ''error'', schema = NotEmpty\<rparr>"

definition types :: "str \<rightharpoonup> message_cls" where
  "types = [''error'' \<mapsto> ErrorMessage]"

text \<open>
  \<open>Message.encode\<close>: the JSON text is encoded to bytes and then added to the
  \<^verbatim>\<open>str\<close> \<^verbatim>\<open>"\x00"\<close>.
\<close>

definition encode :: "(json \<Rightarrow> str) \<Rightarrow> message \<Rightarrow> exn + bytes" where
  "encode dumps m =
     (case from_python (schema (cls m)) (entity m) of
        None \<Rightarrow> Inl Invalid
      | Some w \<Rightarrow>
          bytes_add_str
            (utf8_encode (dumps (JObj [(''type'', JStr (type' (cls m))), (''entity'', w)])))
            [CHR 0x00])"

text \<open>
  \<^verbatim>\<open>MessageMeta.types[message_type]\<close>: \<open>KeyError\<close> for a hashable key that is
  not a registered tag, \<open>TypeError\<close> for an unhashable key.
\<close>

definition types_getitem :: "(str \<rightharpoonup> message_cls) \<Rightarrow> json \<Rightarrow> exn + message_cls" where
  "types_getitem reg k =
     (if \<not> hashable k then Inl TypeError
      else case k of
          JStr t \<Rightarrow> (case reg t of None \<Rightarrow> Inl KeyError | Some c \<Rightarrow> Inr c)
        | _ \<Rightarrow> Inl KeyError)"

text \<open>
  \<open>Message.decode\<close>. \<open>loads\<close> is \<^verbatim>\<open>json.loads\<close>, with \<open>None\<close> for its
  \<open>ValueError\<close>. Only \<open>KeyError\<close> of the registry lookup is turned into
  \<open>MessageError\<close>; what the validator raises is propagated.
\<close>

definition decode ::
  "(str \<Rightarrow> json option) \<Rightarrow> (str \<rightharpoonup> message_cls) \<Rightarrow> bytes \<Rightarrow> exn + message" where
  "decode loads reg raw =
     (case utf8_decode raw of
        None \<Rightarrow> Inl MessageError
      | Some raw_string \<Rightarrow>
          (case loads raw_string of
             None \<Rightarrow> Inl MessageError
           | Some json_obj \<Rightarrow>
               (case json_obj of
                  JObj d \<Rightarrow>
                    (case types_getitem reg (dict_get d ''type'') of
                       Inl e \<Rightarrow> (if e = KeyError then Inl MessageError else Inl e)
                     | Inr message_cls \<Rightarrow>
                         (case to_python (schema message_cls) (dict_get d ''entity'') of
                            None \<Rightarrow> Inl Invalid
                          | Some v \<Rightarrow> Inr \<lparr>cls = message_cls, entity = v\<rparr>))
                | _ \<Rightarrow> Inl MessageError)))"

text \<open>
  \<open>Message.decode_from_buffer\<close>. The generator's result is the list of the
  messages it yields and the exception that ends it, if any. The
  \<^verbatim>\<open>BufferedReader\<close> holds a read-ahead: \<^verbatim>\<open>peek()\<close> returns it when it is not
  empty and otherwise fills it with up to \<open>DEFAULT_BUFFER_SIZE\<close> bytes of the
  underlying buffer; \<^verbatim>\<open>read(terminator + 1)\<close> takes the frame and its terminator
  off the read-ahead.
\<close>

definition DEFAULT_BUFFER_SIZE :: nat where
  "DEFAULT_BUFFER_SIZE = 8192"

function decode_from_buffer_loop ::
  "(str \<Rightarrow> json option) \<Rightarrow> (str \<rightharpoonup> message_cls) \<Rightarrow> bytes \<Rightarrow> bytes \<Rightarrow> message list \<times> exn option" where
  "decode_from_buffer_loop loads reg readahead raw =
     (let peek = (if readahead = [] then take DEFAULT_BUFFER_SIZE raw else readahead);
          raw1 = (if readahead = [] then drop DEFAULT_BUFFER_SIZE raw else raw);
          terminator = find_null peek in
      if terminator = -1 then ([], None)
      else
        (case decode loads reg (butlast (take (nat (terminator + 1)) peek)) of
           Inl e \<Rightarrow> ([], Some e)
         | Inr m \<Rightarrow>
             (case decode_from_buffer_loop loads reg (drop (nat (terminator + 1)) peek) raw1 of
                (ms, r) \<Rightarrow> (m # ms, r))))"
  by pat_completeness auto
termination
proof (relation "measure (\<lambda>(loads, reg, readahead, raw). length readahead + length raw)")
  show "wf (measure (\<lambda>(loads, reg, readahead, raw). length readahead + length raw))"
    by simp
next
  fix loads :: "str \<Rightarrow> json option" and reg :: "str \<rightharpoonup> message_cls"
    and readahead raw peek raw1 :: bytes and terminator :: int and m :: message
  assume p: "peek = (if readahead = [] then take DEFAULT_BUFFER_SIZE raw else readahead)"
    and r: "raw1 = (if readahead = [] then drop DEFAULT_BUFFER_SIZE raw else raw)"
    and t: "terminator = find_null peek" and n: "terminator \<noteq> -1"
  have ge: "- 1 \<le> find_null bs" for bs
    by (induction bs) (auto simp: Let_def)
  from t n have ne: "peek \<noteq> []"
    by auto
  from ge [of peek] t n have pos: "0 \<le> terminator"
    by arith
  have len: "length peek + length raw1 = length readahead + length raw"
    using p r by auto
  from ne pos len
  show "((loads, reg, drop (nat (terminator + 1)) peek, raw1), (loads, reg, readahead, raw))
      \<in> measure (\<lambda>(loads, reg, readahead, raw). length readahead + length raw)"
    by (cases peek) auto
qed

definition decode_from_buffer ::
  "(str \<Rightarrow> json option) \<Rightarrow> (str \<rightharpoonup> message_cls) \<Rightarrow> bytes \<Rightarrow> message list \<times> exn option" where
  "decode_from_buffer loads reg buffer' = decode_from_buffer_loop loads reg [] buffer'"

section \<open>server.py\<close>

text \<open>
  What a connection does is recorded as a trace: the log calls, the slices taken
  off the buffer, and the handler calls.
\<close>

datatype level = DEBUG | INFO | WARNING | ERROR

datatype event =
    Log level str
  | Extracted bytes
  | Called json json

text \<open>
  A handler is a callback of the application: it returns (\<open>None\<close>) or raises.
  \<open>type_handlers\<close> maps the keys given to \<open>register_handler\<close> to handlers.
  \<open>register_handler\<close> accepts any hashable key; a key that the \<^verbatim>\<open>type\<close> field of
  a decoded frame can equal is a JSON value, so the table is a map from JSON
  values, read and written at \<open>dict_key\<close>.
\<close>

type_synonym handler_fn = "json \<Rightarrow> exn option"

record run =
  trace :: "event list"
  raised :: "exn option"
  buffer :: bytes

definition MAGIC_NUMBER :: bytes where
  "MAGIC_NUMBER = [CHR 0xCA, CHR 0xC3, CHR 0x55]"

definition PROTOCOL_VERSION :: nat where
  "PROTOCOL_VERSION = 0"

text \<open>\<open>ZordzmanHandler.send\<close>: the bytes handed to \<^verbatim>\<open>sendall\<close>.\<close>

definition send :: "(json \<Rightarrow> str) \<Rightarrow> str \<Rightarrow> json \<Rightarrow> bytes" where
  "send dumps t msg =
     bytes_add_bytes
       (utf8_encode (dumps (JObj [(''type'', JStr t), (''message'', msg)])))
       [CHR 0x00]"


text \<open>
  \<open>ZordzmanHandler._process_message\<close>. The second test evaluates
  \<^verbatim>\<open>message["type"]\<close> when the key is absent, which raises \<open>KeyError\<close>, and
  is false when the key is present, whatever the type of its value. The
  membership test on \<open>type_handlers\<close> raises \<open>TypeError\<close> for an unhashable
  key. The warning's format string reads the attribute \<^verbatim>\<open>type\<close> of a dict, which
  raises \<open>AttributeError\<close> before anything is logged. The handler found under
  the value of \<^verbatim>\<open>type\<close> is called with the value of \<^verbatim>\<open>entity\<close>.
\<close>

definition process_message :: "(json \<rightharpoonup> handler_fn) \<Rightarrow> json \<Rightarrow> event list \<times> exn option" where
  "process_message hs message =
     (case message of
        JObj d \<Rightarrow>
          if \<not> dict_has d ''type'' then ([], Some KeyError)
          else if \<not> dict_has d ''entity'' then
            ([Log ERROR ''Message doesn't contain an entity field''], None)
          else if \<not> hashable (dict_get d ''type'') then ([], Some TypeError)
          else
            (case hs (dict_key (dict_get d ''type'')) of
               None \<Rightarrow> ([], Some AttributeError)
             | Some h \<Rightarrow>
                 ([Called (dict_get d ''type'') (dict_get d ''entity'')],
                  h (dict_get d ''entity'')))
      | _ \<Rightarrow> ([Log ERROR ''Message is not a dictionary''], None))"

text \<open>
  \<open>ZordzmanHandler._read_json\<close>. The list holds what the successive calls of
  \<^verbatim>\<open>recv\<close> return; an empty result, or the end of the list, is the end of the
  stream. The buffer is cut at \<open>message_end\<close>, so the terminator stays in it,
  and the next \<^verbatim>\<open>recv\<close> follows at once.
\<close>

fun read_loop ::
  "(str \<Rightarrow> json option) \<Rightarrow> (json \<rightharpoonup> handler_fn) \<Rightarrow> bytes \<Rightarrow> bytes list \<Rightarrow> run" where
  "read_loop loads hs buf [] =
     \<lparr>trace = [Log DEBUG ''Connection terminated by client''], raised = None, buffer = buf\<rparr>"
| "read_loop loads hs buf (recv # rest) =
     (if recv = [] then
        \<lparr>trace = [Log DEBUG ''Connection terminated by client''], raised = None, buffer = buf\<rparr>
      else
        (let buf1 = buf @ recv; message_end = find_null buf1 in
         if message_end = -1 then read_loop loads hs buf1 rest
         else
           (let message = take (nat message_end) buf1;
                buf2 = drop (nat message_end) buf1 in
            case utf8_decode message of
              None \<Rightarrow>
                \<lparr>trace = [Extracted message, Log ERROR ''Couldn't decode message as UTF-8''],
                 raised = None, buffer = buf2\<rparr>
            | Some text \<Rightarrow>
                (case loads text of
                   None \<Rightarrow>
                     \<lparr>trace = [Extracted message, Log ERROR ''Malformed JSON message''],
                      raised = None, buffer = buf2\<rparr>
                 | Some json_object \<Rightarrow>
                     (case process_message hs json_object of
                        (evs, Some e) \<Rightarrow>
                          \<lparr>trace = Extracted message # evs, raised = Some e, buffer = buf2\<rparr>
                      | (evs, None) \<Rightarrow>
                          (let r = read_loop loads hs buf2 rest
                           in r\<lparr>trace := Extracted message # evs @ trace r\<rparr>))))))"

definition read_json :: "(str \<Rightarrow> json option) \<Rightarrow> (json \<rightharpoonup> handler_fn) \<Rightarrow> bytes list \<Rightarrow> run" where
  "read_json loads hs chunks = read_loop loads hs [] chunks"

text \<open>
  \<open>ZordzmanHandler.handler\<close>: the first element of the list is what
  \<^verbatim>\<open>recv(4)\<close> returns.
\<close>

definition handler :: "(str \<Rightarrow> json option) \<Rightarrow> (json \<rightharpoonup> handler_fn) \<Rightarrow> bytes list \<Rightarrow> run" where
  "handler loads hs chunks =
     (let buf = (case chunks of [] \<Rightarrow> [] | c # _ \<Rightarrow> c) in
      if length buf < 4 then
        \<lparr>trace = [Log INFO ''Connection established'', Log ERROR ''Incomplete protocol identifier''],
         raised = None, buffer = buf\<rparr>
      else if take (length MAGIC_NUMBER) buf \<noteq> MAGIC_NUMBER then
        \<lparr>trace = [Log INFO ''Connection established'', Log ERROR ''Bad magic number''],
         raised = None, buffer = buf\<rparr>
      else if of_char (buf ! 3) \<noteq> PROTOCOL_VERSION then
        \<lparr>trace = [Log INFO ''Connection established'', Log ERROR ''Wrong protocol version''],
         raised = None, buffer = buf\<rparr>
      else
        (let r = read_json loads hs (tl chunks)
         in r\<lparr>trace := Log INFO ''Connection established'' # trace r\<rparr>))"

text \<open>The slices a run took off the buffer, in order.\<close>

fun frames :: "event list \<Rightarrow> bytes list" where
  "frames [] = []"
| "frames (Extracted m # es) = m # frames es"
| "frames (_ # es) = frames es"

section \<open>Example inputs\<close>

text \<open>
  The value of \<^verbatim>\<open>json.loads\<close> on the texts of the examples below (the empty text
  and an unterminated fragment are malformed). The general theorems take
  \<open>loads\<close> as a parameter; this table is used at concrete inputs only.
\<close>

definition loads_sample :: "str \<Rightarrow> json option" where
  \<open>loads_sample = map_of
     [(''{"type": "error", "entity": "k"}'',
         JObj [(''type'', JStr ''error''), (''entity'', JStr ''k'')]),
      (''{"type": "error", "entity": ""}'',
         JObj [(''type'', JStr ''error''), (''entity'', JStr [])]),
      (''{"type":"unknown","entity":{}}'',
         JObj [(''type'', JStr ''unknown''), (''entity'', JObj [])]),
      (''{"type": "chat", "entity": "hi"}'',
         JObj [(''type'', JStr ''chat''), (''entity'', JStr ''hi'')]),
      (''{"entity": 1}'', JObj [(''entity'', JInt 1)]),
      (''{"type": "error"}'', JObj [(''type'', JStr ''error'')]),
      (''{"type": 1, "entity": "x"}'', JObj [(''type'', JInt 1), (''entity'', JStr ''x'')]),
      (''[]'', JArr [])]\<close>

definition error_frame :: bytes where
  \<open>error_frame = ''{"type": "error", "entity": "k"}''\<close>

definition empty_entity_frame :: bytes where
  \<open>empty_entity_frame = ''{"type": "error", "entity": ""}''\<close>

definition unknown_frame :: bytes where
  \<open>unknown_frame = ''{"type":"unknown","entity":{}}''\<close>


definition no_type_frame :: bytes where
  \<open>no_type_frame = ''{"entity": 1}''\<close>

definition no_entity_frame :: bytes where
  \<open>no_entity_frame = ''{"type": "error"}''\<close>


text \<open>A handler that returns, and one that raises.\<close>

definition quiet :: handler_fn where
  "quiet e = None"

definition failing :: handler_fn where
  "failing e = Some (HandlerFailure ''boom'')"

section \<open>Facts about the library operations\<close>

lemma find_null_ge: "find_null bs \<ge> -1"
  by (induction bs) (auto simp: Let_def)

lemma find_null_none: "find_null bs = -1 \<longleftrightarrow> CHR 0x00 \<notin> set bs"
proof (induction bs)
  case Nil
  show ?case by simp
next
  case (Cons b bs)
  have "find_null bs + 1 \<noteq> -1" using find_null_ge [of bs] by arith
  with Cons show ?case by (auto simp: Let_def)
qed

lemma of_char_zero: "of_char c = (0::nat) \<longleftrightarrow> c = CHR 0x00"
  using of_char_eq_iff [of c "CHR 0x00", where ?'a = nat] by simp

section \<open>Encoding\<close>

text \<open>
  Claim C1 (round trip of \<open>decode\<close> after \<open>encode\<close>). The round trip cannot start:
  on the message \<^verbatim>\<open>ErrorMessage("k")\<close>, whose entity is in normalized form,
  \<open>encode\<close> raises \<open>TypeError\<close> and yields no bytes to decode, whatever
  \<^verbatim>\<open>json.dumps\<close> returns.
\<close>

theorem encode_round_trip_fails:
  "encode dumps \<lparr>cls = ErrorMessage, entity = JStr ''k''\<rparr> = Inl TypeError"
  by (simp add: encode_def ErrorMessage_def NotEmpty_def bytes_add_str_def)

text \<open>
  Claim C10. \<open>ErrorMessage\<close> is the one registered kind, and \<open>encode\<close> raises
  \<open>TypeError\<close> on each of its instances. For any message at all \<open>encode\<close> never
  returns bytes: it raises \<open>TypeError\<close> unless the schema's \<open>from_python\<close> has
  raised before. \<open>send\<close> builds its frame with a bytes terminator and does
  produce bytes: the JSON text followed by one null byte.
\<close>

theorem encode_raises_TypeError:
  "dom types = {''error''} \<and> types ''error'' = Some ErrorMessage
   \<and> encode dumps \<lparr>cls = ErrorMessage, entity = e\<rparr> = Inl TypeError
   \<and> (\<forall>bs. encode dumps m \<noteq> Inr bs)
   \<and> (encode dumps m = Inl TypeError \<or> from_python (schema (cls m)) (entity m) = None)
   \<and> send dumps t msg = dumps (JObj [(''type'', JStr t), (''message'', msg)]) @ [CHR 0x00]"
  by (auto simp: types_def encode_def ErrorMessage_def NotEmpty_def bytes_add_str_def
      send_def bytes_add_bytes_def utf8_encode_def split: option.splits)

section \<open>Decoding\<close>

lemma decode_invalid_utf8: "\<not> utf8_valid raw \<Longrightarrow> decode loads reg raw = Inl MessageError"
  by (simp add: decode_def utf8_decode_def)

lemma decode_malformed: "loads raw = None \<Longrightarrow> decode loads reg raw = Inl MessageError"
  by (simp add: decode_def utf8_decode_def)

lemma decode_not_object:
  "loads raw = Some j \<Longrightarrow> \<forall>d. j \<noteq> JObj d \<Longrightarrow> decode loads reg raw = Inl MessageError"
  by (cases j) (simp_all add: decode_def utf8_decode_def)

lemma decode_object:
  "utf8_valid raw \<Longrightarrow> loads raw = Some (JObj d) \<Longrightarrow>
   decode loads reg raw =
     (case types_getitem reg (dict_get d ''type'') of
        Inl e \<Rightarrow> (if e = KeyError then Inl MessageError else Inl e)
      | Inr c \<Rightarrow>
          (case to_python (schema c) (dict_get d ''entity'') of
             None \<Rightarrow> Inl Invalid
           | Some v \<Rightarrow> Inr \<lparr>cls = c, entity = v\<rparr>))"
  by (simp add: decode_def utf8_decode_def)

lemma types_getitem_hashable:
  "hashable k \<Longrightarrow>
   types_getitem reg k =
     (case k of JStr t \<Rightarrow> (case reg t of None \<Rightarrow> Inl KeyError | Some c \<Rightarrow> Inr c)
      | _ \<Rightarrow> Inl KeyError)"
  by (simp add: types_getitem_def)

text \<open>
  Claim C5 as stated fails on the code: a registered kind whose validator rejects
  the entity makes \<open>decode\<close> raise the validator's \<open>Invalid\<close>, which is not a
  \<open>MessageError\<close>. The frame \<^verbatim>\<open>{"type": "error", "entity": ""}\<close> shows it.
\<close>

theorem decode_validator_counterexample:
  "loads_sample empty_entity_frame = Some (JObj [(''type'', JStr ''error''), (''entity'', JStr [])])
   \<and> types ''error'' = Some ErrorMessage
   \<and> to_python (schema ErrorMessage) (JStr []) = None
   \<and> decode loads_sample types empty_entity_frame = Inl Invalid
   \<and> decode loads_sample types empty_entity_frame \<noteq> Inl MessageError"
  by (simp add: loads_sample_def empty_entity_frame_def types_def ErrorMessage_def NotEmpty_def
      decode_def utf8_decode_def byte_in_def dict_get_def types_getitem_def)

text \<open>
  Claim C5 as amended, for a frame whose \<^verbatim>\<open>type\<close> field, if the frame is an object,
  is hashable (absent, null, a boolean, a number or a string). \<open>decode\<close> raises
  \<open>MessageError\<close> exactly when the bytes are not valid UTF-8, or the text is not
  valid JSON, or the top-level value is not an object, or the \<^verbatim>\<open>type\<close> field is
  not a registered tag. For a registered tag the result is decided by the kind's
  validator on the \<^verbatim>\<open>entity\<close> field: \<open>Invalid\<close> is propagated when it rejects,
  and a message of the looked-up kind with the validated entity is returned when
  it accepts.
\<close>

theorem decode_outcomes:
  assumes H: "\<forall>d. loads raw = Some (JObj d) \<longrightarrow> hashable (dict_get d ''type'')"
  shows "(decode loads reg raw = Inl MessageError \<longleftrightarrow>
            \<not> utf8_valid raw \<or> loads raw = None
            \<or> (\<exists>j. loads raw = Some j \<and> (\<forall>d. j \<noteq> JObj d))
            \<or> (\<exists>d. loads raw = Some (JObj d)
                  \<and> (\<forall>t. dict_get d ''type'' = JStr t \<longrightarrow> reg t = None)))
         \<and> (\<forall>d t c. utf8_valid raw \<and> loads raw = Some (JObj d)
                \<and> dict_get d ''type'' = JStr t \<and> reg t = Some c \<longrightarrow>
              decode loads reg raw =
                (case to_python (schema c) (dict_get d ''entity'') of
                   None \<Rightarrow> Inl Invalid
                 | Some v \<Rightarrow> Inr \<lparr>cls = c, entity = v\<rparr>))"
proof (cases "utf8_valid raw")
  case False
  then show ?thesis by (simp add: decode_invalid_utf8)
next
  case True
  show ?thesis
  proof (cases "loads raw")
    case None
    then show ?thesis by (simp add: decode_malformed)
  next
    case (Some j)
    show ?thesis
    proof (cases "\<exists>d. j = JObj d")
      case False
      with Some show ?thesis by (simp add: decode_not_object)
    next
      case True
      then obtain d where j: "j = JObj d" by blast
      with Some H have h: "hashable (dict_get d ''type'')" by simp
      show ?thesis
        using True Some j h \<open>utf8_valid raw\<close>
        by (cases "dict_get d ''type''")
          (auto simp: decode_object types_getitem_hashable split: option.splits)
    qed
  qed
qed

theorem decode_outcomes_witness:
  "decode loads_sample types error_frame = Inr \<lparr>cls = ErrorMessage, entity = JStr ''k''\<rparr>
   \<and> decode loads_sample types empty_entity_frame = Inl Invalid
   \<and> decode loads_sample types ''[]'' = Inl MessageError"
proof -
  have l1: "loads_sample error_frame = Some (JObj [(''type'', JStr ''error''), (''entity'', JStr ''k'')])"
    by (simp add: loads_sample_def error_frame_def)
  have l2: "loads_sample empty_entity_frame = Some (JObj [(''type'', JStr ''error''), (''entity'', JStr [])])"
    by (simp add: loads_sample_def empty_entity_frame_def)
  have l3: "loads_sample ''[]'' = Some (JArr [])"
    by (simp add: loads_sample_def)
  have u1: "utf8_valid error_frame" by (simp add: error_frame_def byte_in_def)
  have u2: "utf8_valid empty_entity_frame" by (simp add: empty_entity_frame_def byte_in_def)
  have t: "types ''error'' = Some ErrorMessage" by (simp add: types_def)
  have h1: "\<forall>d. loads_sample error_frame = Some (JObj d) \<longrightarrow> hashable (dict_get d ''type'')"
    by (simp add: l1 dict_get_def)
  have h2: "\<forall>d. loads_sample empty_entity_frame = Some (JObj d) \<longrightarrow> hashable (dict_get d ''type'')"
    by (simp add: l2 dict_get_def)
  have h3: "\<forall>d. loads_sample ''[]'' = Some (JObj d) \<longrightarrow> hashable (dict_get d ''type'')"
    by (simp add: l3)
  show ?thesis
    using decode_outcomes [where loads = loads_sample and raw = error_frame and reg = types, OF h1]
      decode_outcomes [where loads = loads_sample and raw = empty_entity_frame and reg = types, OF h2]
      decode_outcomes [where loads = loads_sample and raw = "''[]''" and reg = types, OF h3]
      l1 l2 l3 u1 u2 t
    by (simp add: dict_get_def ErrorMessage_def NotEmpty_def)
qed

section \<open>The handshake\<close>

text \<open>
  Claim C9. \<open>handler\<close> checks the preamble once, on what the first
  \<^verbatim>\<open>recv(4)\<close> returned, before any frame is read: fewer than 4 bytes, a wrong
  magic number or a version byte other than 0 each end the connection with one
  error logged and nothing read; otherwise the rest of the connection is
  \<open>read_json\<close> on the remaining input.
\<close>

theorem handler_preamble:
  "(length pre < 4 \<longrightarrow>
      handler loads hs (pre # rest) =
        \<lparr>trace = [Log INFO ''Connection established'',
                  Log ERROR ''Incomplete protocol identifier''],
         raised = None, buffer = pre\<rparr>)
   \<and> (4 \<le> length pre \<and> take 3 pre \<noteq> [CHR 0xCA, CHR 0xC3, CHR 0x55] \<longrightarrow>
      handler loads hs (pre # rest) =
        \<lparr>trace = [Log INFO ''Connection established'', Log ERROR ''Bad magic number''],
         raised = None, buffer = pre\<rparr>)
   \<and> (4 \<le> length pre \<and> take 3 pre = [CHR 0xCA, CHR 0xC3, CHR 0x55] \<and> pre ! 3 \<noteq> CHR 0x00 \<longrightarrow>
      handler loads hs (pre # rest) =
        \<lparr>trace = [Log INFO ''Connection established'', Log ERROR ''Wrong protocol version''],
         raised = None, buffer = pre\<rparr>)
   \<and> (4 \<le> length pre \<and> take 3 pre = [CHR 0xCA, CHR 0xC3, CHR 0x55] \<and> pre ! 3 = CHR 0x00 \<longrightarrow>
      handler loads hs (pre # rest) =
        (read_json loads hs rest)
          \<lparr>trace := Log INFO ''Connection established'' # trace (read_json loads hs rest)\<rparr>)
   \<and> handler loads hs [] =
        \<lparr>trace = [Log INFO ''Connection established'',
                  Log ERROR ''Incomplete protocol identifier''],
         raised = None, buffer = []\<rparr>"
proof -
  have len: "length MAGIC_NUMBER = 3"
    by (simp add: MAGIC_NUMBER_def)
  show ?thesis
    unfolding handler_def len
    by (simp add: MAGIC_NUMBER_def PROTOCOL_VERSION_def Let_def of_char_zero)
qed

theorem handler_preamble_witness:
  "handler loads_sample [JStr ''error'' \<mapsto> quiet] [[CHR 0xCA, CHR 0xC3], error_frame @ [CHR 0x00]] =
     \<lparr>trace = [Log INFO ''Connection established'',
               Log ERROR ''Incomplete protocol identifier''],
      raised = None, buffer = [CHR 0xCA, CHR 0xC3]\<rparr>
   \<and> handler loads_sample [JStr ''error'' \<mapsto> quiet] [''abcd'', error_frame @ [CHR 0x00]] =
     \<lparr>trace = [Log INFO ''Connection established'', Log ERROR ''Bad magic number''],
      raised = None, buffer = ''abcd''\<rparr>
   \<and> handler loads_sample [JStr ''error'' \<mapsto> quiet]
        [[CHR 0xCA, CHR 0xC3, CHR 0x55, CHR 0x01], error_frame @ [CHR 0x00]] =
     \<lparr>trace = [Log INFO ''Connection established'', Log ERROR ''Wrong protocol version''],
      raised = None, buffer = [CHR 0xCA, CHR 0xC3, CHR 0x55, CHR 0x01]\<rparr>
   \<and> handler loads_sample [JStr ''error'' \<mapsto> quiet]
        [[CHR 0xCA, CHR 0xC3, CHR 0x55, CHR 0x00], error_frame @ [CHR 0x00]] =
     \<lparr>trace = [Log INFO ''Connection established'', Extracted error_frame,
               Called (JStr ''error'') (JStr ''k''), Log DEBUG ''Connection terminated by client''],
      raised = None, buffer = [CHR 0x00]\<rparr>"
proof -
  have r: "read_json loads_sample [JStr ''error'' \<mapsto> quiet] [error_frame @ [CHR 0x00]] =
    \<lparr>trace = [Extracted error_frame, Called (JStr ''error'') (JStr ''k''),
              Log DEBUG ''Connection terminated by client''],
     raised = None, buffer = [CHR 0x00]\<rparr>"
    by code_simp
  show ?thesis
    using handler_preamble [of "[CHR 0xCA, CHR 0xC3]" loads_sample "[JStr ''error'' \<mapsto> quiet]"
        "[error_frame @ [CHR 0x00]]"]
      handler_preamble [of "''abcd''" loads_sample "[JStr ''error'' \<mapsto> quiet]"
        "[error_frame @ [CHR 0x00]]"]
      handler_preamble [of "[CHR 0xCA, CHR 0xC3, CHR 0x55, CHR 0x01]" loads_sample
        "[JStr ''error'' \<mapsto> quiet]" "[error_frame @ [CHR 0x00]]"]
      handler_preamble [of "[CHR 0xCA, CHR 0xC3, CHR 0x55, CHR 0x00]" loads_sample
        "[JStr ''error'' \<mapsto> quiet]" "[error_frame @ [CHR 0x00]]"]
    by (simp add: r)
qed

section \<open>The frame reader\<close>

text \<open>
  Claim C3. For a byte string without a null byte, the slices the frame reader
  extracts are the same whether the string arrives as two chunks or as one.
\<close>

theorem chunk_boundary_independence:
  "CHR 0x00 \<notin> set (a @ b) \<Longrightarrow>
     frames (trace (read_json loads hs [a, b])) = frames (trace (read_json loads hs [a @ b]))"
  by (simp add: read_json_def Let_def find_null_none)

theorem chunk_boundary_independence_witness:
  \<open>CHR 0x00 \<notin> set (''{"type": "er'' @ ''ror", "ent'')
   \<and> frames (trace (read_json loads_sample [JStr ''error'' \<mapsto> quiet] [''{"type": "er'', ''ror", "ent''])) = []
   \<and> frames (trace (read_json loads_sample [JStr ''error'' \<mapsto> quiet] [''{"type": "er'' @ ''ror", "ent''])) = []\<close>
proof -
  have h: \<open>CHR 0x00 \<notin> set (''{"type": "er'' @ ''ror", "ent'')\<close> by simp
  have e: \<open>frames (trace (read_json loads_sample [JStr ''error'' \<mapsto> quiet] [''{"type": "er'', ''ror", "ent''])) = []\<close>
    by code_simp
  show ?thesis
    using h e chunk_boundary_independence [OF h, of loads_sample "[JStr ''error'' \<mapsto> quiet]"]
    by simp
qed

section \<open>Dispatch\<close>






text \<open>
  Claim C7 as stated fails on the code: nothing catches what a handler raises.
  With a handler for \<^verbatim>\<open>error\<close> that raises, the exception leaves the read loop,
  nothing is logged about it, and the frame of the next chunk is not processed.
\<close>

theorem handler_exception_counterexample:
  "raised (read_json loads_sample [JStr ''error'' \<mapsto> failing]
       [error_frame @ [CHR 0x00], error_frame @ [CHR 0x00]]) = Some (HandlerFailure ''boom'')
   \<and> trace (read_json loads_sample [JStr ''error'' \<mapsto> failing]
       [error_frame @ [CHR 0x00], error_frame @ [CHR 0x00]]) =
       [Extracted error_frame, Called (JStr ''error'') (JStr ''k'')]"
  by code_simp

text \<open>
  Claim C7 as amended. When the handler registered for the type of a dispatched
  message raises, the exception propagates out of \<open>_process_message\<close> and
  \<open>_read_json\<close>: the read loop ends with that exception right after the call,
  without a log entry, and whatever input follows is not read.
\<close>

theorem handler_exception_propagates:
  assumes "recv \<noteq> []" and "find_null (buf @ recv) \<noteq> -1"
    and "m = take (nat (find_null (buf @ recv))) (buf @ recv)"
    and "utf8_valid m" and "loads m = Some (JObj d)"
    and "map_of d ''type'' = Some k" and "map_of d ''entity'' = Some e"
    and "hashable k" and "hs (dict_key k) = Some h" and "h e = Some x"
  shows "read_loop loads hs buf (recv # rest) =
           \<lparr>trace = [Extracted m, Called k e], raised = Some x,
            buffer = drop (nat (find_null (buf @ recv))) (buf @ recv)\<rparr>"
proof -
  have "process_message hs (JObj d) = ([Called k e], Some x)"
    using assms by (simp add: process_message_def dict_has_def dict_get_def)
  with assms show ?thesis
    by (simp add: Let_def utf8_decode_def)
qed

theorem handler_exception_propagates_witness:
  "read_json loads_sample [JStr ''error'' \<mapsto> failing]
       [error_frame @ [CHR 0x00], error_frame @ [CHR 0x00]] =
     \<lparr>trace = [Extracted error_frame, Called (JStr ''error'') (JStr ''k'')],
      raised = Some (HandlerFailure ''boom''), buffer = [CHR 0x00]\<rparr>"
proof -
  have r: "error_frame @ [CHR 0x00] \<noteq> []"
    by simp
  have n: "find_null ([] @ error_frame @ [CHR 0x00]) \<noteq> -1"
    by (simp add: error_frame_def)
  have m: "error_frame =
      take (nat (find_null ([] @ error_frame @ [CHR 0x00]))) ([] @ error_frame @ [CHR 0x00])"
    by (simp add: error_frame_def)
  have u: "utf8_valid error_frame"
    by (simp add: error_frame_def byte_in_def)
  have l: "loads_sample error_frame =
      Some (JObj [(''type'', JStr ''error''), (''entity'', JStr ''k'')])"
    by (simp add: loads_sample_def error_frame_def)
  have t: "map_of [(''type'', JStr ''error''), (''entity'', JStr ''k'')] ''type'' =
      Some (JStr ''error'')"
    by simp
  have e: "map_of [(''type'', JStr ''error''), (''entity'', JStr ''k'')] ''entity'' =
      Some (JStr ''k'')"
    by simp
  have k: "hashable (JStr ''error'')"
    by simp
  have h: "[JStr ''error'' \<mapsto> failing] (dict_key (JStr ''error'')) = Some failing"
    by (simp add: dict_key_def)
  have x: "failing (JStr ''k'') = Some (HandlerFailure ''boom'')"
    by (simp add: failing_def)
  have b: "drop (nat (find_null ([] @ error_frame @ [CHR 0x00]))) ([] @ error_frame @ [CHR 0x00]) =
      [CHR 0x00]"
    by (simp add: error_frame_def)
  show ?thesis
    unfolding read_json_def
      handler_exception_propagates [where buf = "[]" and recv = "error_frame @ [CHR 0x00]"
        and m = error_frame and loads = loads_sample and k = "JStr ''error''" and e = "JStr ''k''"
        and hs = "[JStr ''error'' \<mapsto> failing]" and h = failing and x = "HandlerFailure ''boom''"
        and rest = "[error_frame @ [CHR 0x00]]"
        and d = "[(''type'', JStr ''error''), (''entity'', JStr ''k'')]",
        OF r n m u l t e k h x] b
    by (rule refl)
qed

section \<open>Defects of the inbound path\<close>

text \<open>
  Claim C4. The buffer is cut at the terminator, not after it, and one slice at
  most is taken per chunk. A chunk holding two frames yields one slice and leaves
  the terminator and the second frame in the buffer; when the second frame comes
  in a chunk of its own, the terminator left at the start of the buffer yields an
  empty slice, which is malformed JSON and ends the loop.
\<close>

theorem frame_reader_keeps_terminator:
  "read_json loads_sample [JStr ''error'' \<mapsto> quiet] [error_frame @ [CHR 0x00] @ error_frame @ [CHR 0x00]] =
     \<lparr>trace = [Extracted error_frame, Called (JStr ''error'') (JStr ''k''),
               Log DEBUG ''Connection terminated by client''],
      raised = None, buffer = CHR 0x00 # error_frame @ [CHR 0x00]\<rparr>
   \<and> read_json loads_sample [JStr ''error'' \<mapsto> quiet] [error_frame @ [CHR 0x00], error_frame @ [CHR 0x00]] =
     \<lparr>trace = [Extracted error_frame, Called (JStr ''error'') (JStr ''k''), Extracted [],
               Log ERROR ''Malformed JSON message''],
      raised = None, buffer = CHR 0x00 # error_frame @ [CHR 0x00]\<rparr>"
  by code_simp

text \<open>
  The other reader of the repository, \<open>decode_from_buffer\<close>, removes the
  terminator with each frame and goes on to the next one: from a buffer with two
  frames and an unterminated rest it yields both messages.
\<close>

lemma decode_from_buffer_two_frames:
  "map entity (fst (decode_from_buffer loads_sample types
       (error_frame @ [CHR 0x00] @ error_frame @ [CHR 0x00] @ ''okay''))) = [JStr ''k'', JStr ''k'']
   \<and> snd (decode_from_buffer loads_sample types
       (error_frame @ [CHR 0x00] @ error_frame @ [CHR 0x00] @ ''okay'')) = None"
  by (simp add: decode_from_buffer_def DEFAULT_BUFFER_SIZE_def error_frame_def loads_sample_def
      decode_def utf8_decode_def byte_in_def dict_get_def types_getitem_def types_def
      ErrorMessage_def NotEmpty_def)

text \<open>
  Claim C6. For a frame whose type has no handler, formatting the warning raises
  \<open>AttributeError\<close>: no warning is logged, the exception leaves the read loop,
  and the valid frame that follows is not processed.
\<close>

theorem unhandled_type_raises:
  "read_json loads_sample [JStr ''error'' \<mapsto> quiet] [unknown_frame @ [CHR 0x00], error_frame @ [CHR 0x00]] =
     \<lparr>trace = [Extracted unknown_frame], raised = Some AttributeError, buffer = [CHR 0x00]\<rparr>"
  by code_simp

text \<open>
  Claim C8. A frame without a \<^verbatim>\<open>type\<close> field raises \<open>KeyError\<close> instead of being
  rejected with an error log. A frame without an \<^verbatim>\<open>entity\<close> field is rejected
  with an error log, but the next chunk then ends the loop on the terminator left
  in the buffer.
\<close>

theorem missing_type_raises:
  "read_json loads_sample [JStr ''error'' \<mapsto> quiet] [no_type_frame @ [CHR 0x00], error_frame @ [CHR 0x00]] =
     \<lparr>trace = [Extracted no_type_frame], raised = Some KeyError, buffer = [CHR 0x00]\<rparr>
   \<and> read_json loads_sample [JStr ''error'' \<mapsto> quiet] [no_entity_frame @ [CHR 0x00], error_frame @ [CHR 0x00]] =
     \<lparr>trace = [Extracted no_entity_frame, Log ERROR ''Message doesn't contain an entity field'',
               Extracted [], Log ERROR ''Malformed JSON message''],
      raised = None, buffer = CHR 0x00 # error_frame @ [CHR 0x00]\<rparr>"
  by code_simp

end
